theory Spec2Isabelle
  imports Complex_Main
begin

section \<open>Errors and HTTP responses\<close>

text \<open>
  \<^verbatim>\<open>fastapi.HTTPException(status_code, detail, headers)\<close>: the \<open>headers\<close> argument is a
  dictionary, or \<open>None\<close> when it is not passed.
\<close>

record http_exception =
  status_code :: nat
  detail :: string
  headers :: "(string \<times> string) list option"

text \<open>
  What a handler or a dependency can raise. \<open>ValueError\<close> is the exception the in-memory
  \<^verbatim>\<open>UserDB.create\<close> raises on a duplicate; \<open>IntegrityError\<close> is what the relational engine
  raises when a flush violates a UNIQUE or NOT NULL constraint; \<open>ValidationError\<close> is what
  a pydantic model raises when it is built from a value of the wrong type.
\<close>

datatype failure = HTTPException http_exception | ValueError | IntegrityError | ValidationError

text \<open>
  The status of the response: an \<open>HTTPException\<close> carries its own, any other exception
  that leaves a handler is answered with 500 (\<^verbatim>\<open>handle_generic_500_exception\<close> in
  \<^verbatim>\<open>core/errors.py\<close>), a returned value with the route's success code.
\<close>

definition response_status :: "nat \<Rightarrow> failure + 'a \<Rightarrow> nat" where
  "response_status success r =
     (case r of Inl (HTTPException e) \<Rightarrow> status_code e | Inl _ \<Rightarrow> 500 | Inr _ \<Rightarrow> success)"

text \<open>The headers of the response to an \<open>HTTPException\<close>, looked up by name.\<close>

definition header :: "http_exception \<Rightarrow> string \<Rightarrow> string option" where
  "header e k = (case headers e of None \<Rightarrow> None | Some hs \<Rightarrow> map_of hs k)"

text \<open>Python's \<^verbatim>\<open>sep.join(xs)\<close>.\<close>

fun str_join :: "string \<Rightarrow> string list \<Rightarrow> string" where
  "str_join sep [] = []"
| "str_join sep [x] = x"
| "str_join sep (x # y # ys) = x @ sep @ str_join sep (y # ys)"

section \<open>Data model (\<^verbatim>\<open>models/user.py\<close>, \<^verbatim>\<open>db/models.py\<close>)\<close>

record UserBase =
  username :: string
  full_name :: "string option"
  email :: "string option"
  is_active :: bool
  scopes :: "string list"

record UserCreate = UserBase +
  password :: string

record UserRead = UserBase +
  user_id :: int

record UserInDB = UserBase +
  hashed_password :: string

text \<open>
  A row of the ORM table \<^verbatim>\<open>Users\<close>; the field \<open>users_c\<close> is the column \<^verbatim>\<open>Users.c\<close>.
  The table is the list of its rows in insertion order.
\<close>

record Users =
  users_id :: int
  users_username :: string
  users_full_name :: "string option"
  users_email :: "string option"
  users_is_active :: bool
  users_scopes :: "string list"
  users_hashed_password :: string

section \<open>Password hashing and tokens (\<^verbatim>\<open>core/security.py\<close>)\<close>

text \<open>
  \<^verbatim>\<open>pwd_context = CryptContext(schemes=["bcrypt"])\<close> belongs to passlib, which is not under
  \<^verbatim>\<open>src/\<close>: its two operations are parameters of the model.
\<close>

record CryptContext =
  ctx_hash :: "string \<Rightarrow> string"
  ctx_verify :: "string \<Rightarrow> string \<Rightarrow> bool"

definition verify_password :: "CryptContext \<Rightarrow> string \<Rightarrow> string \<Rightarrow> bool" where
  "verify_password pwd_context plain_password hashed = ctx_verify pwd_context plain_password hashed"

definition get_password_hash :: "CryptContext \<Rightarrow> string \<Rightarrow> string" where
  "get_password_hash pwd_context pw = ctx_hash pwd_context pw"

definition SECRET_KEY :: string where
  "SECRET_KEY = ''your-super-secret-key-that-is-long-and-random''"

definition ALGORITHM :: string where
  "ALGORITHM = ''HS256''"

definition ACCESS_TOKEN_EXPIRE_MINUTES :: int where
  "ACCESS_TOKEN_EXPIRE_MINUTES = 30"

text \<open>
  The claims of a token: the dictionary with the keys \<^verbatim>\<open>"sub"\<close>, \<^verbatim>\<open>"scopes"\<close> and
  \<^verbatim>\<open>"exp"\<close>, each of which may be missing (\<^verbatim>\<open>payload.get(k)\<close> is then \<open>None\<close>). Times are
  whole seconds of the POSIX clock, the unit of the \<^verbatim>\<open>exp\<close> claim.
\<close>

record payload =
  claim_sub :: "string option"
  claim_scopes :: "string list option"
  claim_exp :: "int option"

text \<open>
  Modelled from the spec: \<^verbatim>\<open>jwt.encode\<close> and \<^verbatim>\<open>jwt.decode\<close> belong to the python-jose
  library, which is not under \<^verbatim>\<open>src/\<close>. The spec's Token Codec is "a signed, compact,
  self-describing token ... verified with a shared static secret and a fixed signing
  algorithm identifier"; \<open>verify\<close> "fails with Malformed if the signature or structure is
  invalid, Expired if now > exp". A bearer string is therefore either a signed token,
  given by the algorithm of its header, the key that made its signature and its claims,
  or a string that is no token at all; a signature verifies under the key that made it
  and under no other.
\<close>

datatype token = JWS string string payload | Malformed string

datatype jose_error = JWTError | ExpiredSignatureError

definition jwt_encode :: "payload \<Rightarrow> string \<Rightarrow> string \<Rightarrow> token" where
  "jwt_encode claims key algorithm = JWS algorithm key claims"

definition jwt_decode :: "token \<Rightarrow> string \<Rightarrow> string list \<Rightarrow> int \<Rightarrow> jose_error + payload" where
  "jwt_decode tok key algorithms now =
     (case tok of
        Malformed _ \<Rightarrow> Inl JWTError
      | JWS alg k claims \<Rightarrow>
          if alg \<notin> set algorithms then Inl JWTError
          else if k \<noteq> key then Inl JWTError
          else (case claim_exp claims of
                  None \<Rightarrow> Inr claims
                | Some e \<Rightarrow> if e < now then Inl ExpiredSignatureError else Inr claims))"

text \<open>
  \<^verbatim>\<open>create_access_token(data, expires_minutes)\<close>, with the clock read by
  \<^verbatim>\<open>datetime.now\<close> as the argument \<open>now\<close>.
\<close>

definition create_access_token :: "int \<Rightarrow> payload \<Rightarrow> int \<Rightarrow> token" where
  "create_access_token now data expires_minutes =
     (let to_encode = data;
          expire = now + 60 * expires_minutes;
          to_encode = to_encode\<lparr>claim_exp := Some expire\<rparr>
      in jwt_encode to_encode SECRET_KEY ALGORITHM)"

section \<open>The user repository (\<^verbatim>\<open>core/repositories.py\<close>)\<close>

definition SQLUserRepo_to_read :: "Users \<Rightarrow> UserRead" where
  "SQLUserRepo_to_read obj =
     \<lparr>username = users_username obj, full_name = users_full_name obj, email = users_email obj,
      is_active = users_is_active obj, scopes = users_scopes obj, user_id = users_id obj\<rparr>"

definition SQLUserRepo_to_in_db :: "Users \<Rightarrow> UserInDB" where
  "SQLUserRepo_to_in_db obj =
     \<lparr>username = users_username obj, full_name = users_full_name obj, email = users_email obj,
      is_active = users_is_active obj, scopes = users_scopes obj,
      hashed_password = users_hashed_password obj\<rparr>"

text \<open>
  \<^verbatim>\<open>get_current_user\<close> calls \<^verbatim>\<open>repo._to_in_db\<close> on the \<^verbatim>\<open>UserInDB\<close> it got from
  \<^verbatim>\<open>get_by_username\<close>: the method only reads attributes, so it copies that record.
\<close>

definition SQLUserRepo_to_in_db_again :: "UserInDB \<Rightarrow> UserInDB" where
  "SQLUserRepo_to_in_db_again obj =
     \<lparr>username = username obj, full_name = full_name obj, email = email obj,
      is_active = is_active obj, scopes = scopes obj, hashed_password = hashed_password obj\<rparr>"

text \<open>
  \<^verbatim>\<open>select(Users).where(Users.username == username)\<close>, then \<^verbatim>\<open>.first()\<close>.
\<close>

definition SQLUserRepo_get_by_username :: "Users list \<Rightarrow> string \<Rightarrow> UserInDB option" where
  "SQLUserRepo_get_by_username tbl uname =
     (case find (\<lambda>r. users_username r = uname) tbl of
        None \<Rightarrow> None
      | Some obj \<Rightarrow> Some (SQLUserRepo_to_in_db obj))"

text \<open>
  The primary key the engine gives a new row (\<^verbatim>\<open>autoincrement=True\<close>): one more than the
  largest in the table.
\<close>

definition next_users_id :: "Users list \<Rightarrow> int" where
  "next_users_id tbl = fold max (map users_id tbl) 0 + 1"

text \<open>
  \<^verbatim>\<open>SQLUserRepo.create\<close>. The method has no check of its own for an existing username;
  \<^verbatim>\<open>session.flush()\<close> sends the INSERT, and the column \<^verbatim>\<open>Users.username\<close> is declared
  \<^verbatim>\<open>unique=True\<close>, so the engine refuses a second row with the same username with an
  \<open>IntegrityError\<close>. The table is returned with the result.
\<close>

definition SQLUserRepo_create ::
  "CryptContext \<Rightarrow> Users list \<Rightarrow> UserCreate \<Rightarrow> Users list \<times> (failure + UserRead)" where
  "SQLUserRepo_create pwd_context tbl p =
     (let hashed = get_password_hash pwd_context (password p) in
      if \<exists>r \<in> set tbl. users_username r = username p then (tbl, Inl IntegrityError)
      else
        (let obj = \<lparr>users_id = next_users_id tbl, users_username = username p,
                    users_full_name = full_name p, users_email = email p,
                    users_is_active = is_active p, users_scopes = scopes p,
                    users_hashed_password = hashed\<rparr>
         in (tbl @ [obj], Inr (SQLUserRepo_to_read obj))))"

text \<open>\<^verbatim>\<open>authenticate_user(repo, username, password)\<close>.\<close>

definition authenticate_user ::
  "CryptContext \<Rightarrow> Users list \<Rightarrow> string \<Rightarrow> string \<Rightarrow> UserInDB option" where
  "authenticate_user pwd_context tbl uname pw =
     (case SQLUserRepo_get_by_username tbl uname of
        None \<Rightarrow> None
      | Some user \<Rightarrow>
          if \<not> verify_password pwd_context pw (hashed_password user) then None
          else Some user)"

section \<open>The authorizer (\<^verbatim>\<open>core/dependencies.py\<close>)\<close>

definition unauthorized_exception :: http_exception where
  "unauthorized_exception =
     \<lparr>status_code = 401, detail = ''Could not validate credentials.'',
      headers = Some [(''WWW-Authenticate'', ''Bearer'')]\<rparr>"

definition forbidden_exception :: "string list \<Rightarrow> http_exception" where
  "forbidden_exception security_scopes =
     \<lparr>status_code = 403, detail = ''Insufficient scopes.'',
      headers = Some [(''WWW-Authenticate'',
        ''Bearer scope='' @ [CHR 0x22] @ str_join '' '' security_scopes @ [CHR 0x22])]\<rparr>"

text \<open>\<^verbatim>\<open>token_scopes = payload.get("scopes") or []\<close>.\<close>

definition token_scopes :: "payload \<Rightarrow> string list" where
  "token_scopes p = (case claim_scopes p of None \<Rightarrow> [] | Some ss \<Rightarrow> ss)"

text \<open>
  \<^verbatim>\<open>get_current_user(security_scopes, token, repo)\<close>: \<open>now\<close> is the clock \<^verbatim>\<open>jwt.decode\<close>
  reads, \<open>tbl\<close> the users table behind \<open>repo\<close>, \<open>security_scopes\<close> the list
  \<^verbatim>\<open>security_scopes.scopes\<close>. The three checks are in the order of the source.
\<close>

definition get_current_user ::
  "int \<Rightarrow> Users list \<Rightarrow> string list \<Rightarrow> token \<Rightarrow> failure + UserInDB" where
  "get_current_user now tbl security_scopes tok =
     (case jwt_decode tok SECRET_KEY [ALGORITHM] now of
        Inl _ \<Rightarrow> Inl (HTTPException unauthorized_exception)
      | Inr p \<Rightarrow>
          (case claim_sub p of
             None \<Rightarrow> Inl (HTTPException unauthorized_exception)
           | Some uname \<Rightarrow>
               if security_scopes \<noteq> [] \<and>
                  \<not> list_all (\<lambda>scope. scope \<in> set (token_scopes p)) security_scopes
               then Inl (HTTPException (forbidden_exception security_scopes))
               else
                 (case SQLUserRepo_get_by_username tbl uname of
                    None \<Rightarrow> Inl (HTTPException unauthorized_exception)
                  | Some user_in_db \<Rightarrow>
                      if \<not> is_active user_in_db then Inl (HTTPException unauthorized_exception)
                      else Inr (SQLUserRepo_to_in_db_again user_in_db))))"

section \<open>The authentication routes (\<^verbatim>\<open>api/v1/auth.py\<close>)\<close>

text \<open>
  \<^verbatim>\<open>signup\<close>: the handler turns a \<open>ValueError\<close> of \<^verbatim>\<open>repo.create\<close> into the response 400
  "User already exists."; every other exception leaves the handler as it is.
\<close>

definition signup ::
  "CryptContext \<Rightarrow> Users list \<Rightarrow> UserCreate \<Rightarrow> Users list \<times> (failure + UserRead)" where
  "signup pwd_context tbl p =
     (case SQLUserRepo_create pwd_context tbl p of
        (tbl', Inl ValueError) \<Rightarrow>
          (tbl', Inl (HTTPException
             \<lparr>status_code = 400, detail = ''User already exists.'', headers = None\<rparr>))
      | (tbl', r) \<Rightarrow> (tbl', r))"

text \<open>
  The fields of \<^verbatim>\<open>OAuth2PasswordRequestForm\<close> the handler reads; \<open>form_scopes\<close> is the
  list \<^verbatim>\<open>form_data.scopes\<close>.
\<close>

record OAuth2PasswordRequestForm =
  form_username :: string
  form_password :: string
  form_scopes :: "string list"

record token_response =
  access_token :: token
  token_type :: string

text \<open>
  \<^verbatim>\<open>login_for_access_token\<close>; \<open>now\<close> is the clock \<^verbatim>\<open>create_access_token\<close> reads. The
  \<open>HTTPException\<close> of the failure branch is built without headers.
\<close>

definition login_for_access_token ::
  "CryptContext \<Rightarrow> int \<Rightarrow> Users list \<Rightarrow> OAuth2PasswordRequestForm \<Rightarrow> failure + token_response"
  where
  "login_for_access_token pwd_context now tbl form_data =
     (case authenticate_user pwd_context tbl (form_username form_data) (form_password form_data) of
        None \<Rightarrow>
          Inl (HTTPException
            \<lparr>status_code = 401, detail = ''Incorrect username or password.'', headers = None\<rparr>)
      | Some user \<Rightarrow>
          (let requested_scopes =
                 (if form_scopes form_data \<noteq> [] then form_scopes form_data else scopes user);
               tok = create_access_token now
                 \<lparr>claim_sub = Some (username user), claim_scopes = Some requested_scopes,
                  claim_exp = None\<rparr>
                 ACCESS_TOKEN_EXPIRE_MINUTES
           in Inr \<lparr>access_token = tok, token_type = ''bearer''\<rparr>))"

section \<open>The in-memory user store (\<^verbatim>\<open>db/db.py\<close>)\<close>

text \<open>
  \<^verbatim>\<open>UserDB\<close>, the store the routes were first written against (its imports are left as
  comments in \<^verbatim>\<open>core/dependencies.py\<close>): a dictionary from username to record, in
  insertion order, and a counter. Its \<^verbatim>\<open>create\<close> checks for the username itself and
  raises \<open>ValueError\<close>.
\<close>

record UserDB =
  db_users :: "(string \<times> UserInDB) list"
  db_id_counter :: int

definition UserDB_create :: "UserDB \<Rightarrow> UserCreate \<Rightarrow> string \<Rightarrow> UserDB \<times> (failure + UserRead)" where
  "UserDB_create db p hashed =
     (if map_of (db_users db) (username p) \<noteq> None then (db, Inl ValueError)
      else
        (let new_id = db_id_counter db;
             user_in_db = \<lparr>username = username p, full_name = full_name p, email = email p,
                           is_active = is_active p, scopes = scopes p,
                           hashed_password = hashed\<rparr>
         in (db\<lparr>db_users := db_users db @ [(username p, user_in_db)],
                db_id_counter := new_id + 1\<rparr>,
             Inr \<lparr>username = username p, full_name = full_name p, email = email p,
                  is_active = is_active p, scopes = scopes p, user_id = new_id\<rparr>)))"

section \<open>Items (\<^verbatim>\<open>models/item.py\<close>, \<^verbatim>\<open>db/models.py\<close>)\<close>

record ItemBase =
  name :: string
  description :: "string option"
  price :: real
  tags :: "string list"
  in_stock :: bool

type_synonym ItemCreate = ItemBase

record ItemRead = ItemBase +
  item_id :: int
  created_at :: int

text \<open>
  \<^verbatim>\<open>ItemUpdate\<close>: every field is declared \<^verbatim>\<open>T | None\<close> with the default \<open>None\<close>, and pydantic
  records which fields the request body set. A field is therefore \<open>Unset\<close> (absent from
  \<^verbatim>\<open>model_dump(exclude_unset=True)\<close>) or \<open>Assigned v\<close>, where \<open>v\<close> is \<open>None\<close> for an explicit
  \<^verbatim>\<open>null\<close> in the body.
\<close>

datatype 'a field = Unset | Assigned "'a option"

record ItemUpdate =
  upd_name :: "string field"
  upd_description :: "string field"
  upd_price :: "real field"
  upd_tags :: "string list field"
  upd_in_stock :: "bool field"

text \<open>
  A row of the ORM table \<^verbatim>\<open>Items\<close>. The columns \<^verbatim>\<open>name\<close>, \<^verbatim>\<open>price\<close> and \<^verbatim>\<open>in_stock\<close> are
  NOT NULL, \<^verbatim>\<open>description\<close> is nullable, and \<^verbatim>\<open>tags\<close> is a JSON column, which stores
  Python's \<open>None\<close> as the JSON value \<^verbatim>\<open>null\<close> (here \<open>None\<close>).
\<close>

record Items =
  items_id :: int
  items_name :: string
  items_description :: "string option"
  items_price :: real
  items_tags :: "string list option"
  items_in_stock :: bool
  items_created_at :: int

section \<open>The item repository (\<^verbatim>\<open>core/repositories.py\<close>)\<close>

text \<open>
  \<^verbatim>\<open>SQLItemRepo._to_read\<close> builds an \<^verbatim>\<open>ItemRead\<close>, whose \<^verbatim>\<open>tags\<close> must be a list.
\<close>

definition SQLItemRepo_to_read :: "Items \<Rightarrow> failure + ItemRead" where
  "SQLItemRepo_to_read obj =
     (case items_tags obj of
        None \<Rightarrow> Inl ValidationError
      | Some ts \<Rightarrow>
          Inr \<lparr>name = items_name obj, description = items_description obj,
               price = items_price obj, tags = ts, in_stock = items_in_stock obj,
               item_id = items_id obj, created_at = items_created_at obj\<rparr>)"

definition next_items_id :: "Items list \<Rightarrow> int" where
  "next_items_id tbl = fold max (map items_id tbl) 0 + 1"

text \<open>
  \<^verbatim>\<open>SQLItemRepo.create\<close>: the engine assigns \<^verbatim>\<open>id\<close> and \<^verbatim>\<open>created_at\<close> (\<open>now\<close>, its clock).
\<close>

definition SQLItemRepo_create ::
  "int \<Rightarrow> Items list \<Rightarrow> ItemCreate \<Rightarrow> Items list \<times> (failure + ItemRead)" where
  "SQLItemRepo_create now tbl p =
     (let obj = \<lparr>items_id = next_items_id tbl, items_name = name p,
                 items_description = description p, items_price = price p,
                 items_tags = Some (tags p), items_in_stock = in_stock p,
                 items_created_at = now\<rparr>
      in (tbl @ [obj], SQLItemRepo_to_read obj))"

text \<open>\<^verbatim>\<open>session.get(Items, item_id)\<close>: the row with that primary key.\<close>

definition session_get :: "Items list \<Rightarrow> int \<Rightarrow> Items option" where
  "session_get tbl iid = find (\<lambda>r. items_id r = iid) tbl"

definition SQLItemRepo_get :: "Items list \<Rightarrow> int \<Rightarrow> failure + ItemRead option" where
  "SQLItemRepo_get tbl iid =
     (case session_get tbl iid of
        None \<Rightarrow> Inr None
      | Some res \<Rightarrow> (case SQLItemRepo_to_read res of Inl e \<Rightarrow> Inl e | Inr r \<Rightarrow> Inr (Some r)))"

text \<open>
  \<^verbatim>\<open>for k, v in data.items(): setattr(obj, k, v)\<close>, followed by \<^verbatim>\<open>session.flush()\<close>: an
  assigned field takes the value of the payload, an unset one keeps its own. The flush
  sends the UPDATE, and the engine refuses NULL in a NOT NULL column with an
  \<open>IntegrityError\<close> (the result \<open>None\<close>).
\<close>

definition assigned :: "'a field \<Rightarrow> 'a option \<Rightarrow> 'a option" where
  "assigned f old = (case f of Unset \<Rightarrow> old | Assigned v \<Rightarrow> v)"

definition setattrs_flush :: "Items \<Rightarrow> ItemUpdate \<Rightarrow> Items option" where
  "setattrs_flush obj changes =
     (case (assigned (upd_name changes) (Some (items_name obj)),
            assigned (upd_price changes) (Some (items_price obj)),
            assigned (upd_in_stock changes) (Some (items_in_stock obj))) of
        (Some n, Some p, Some s) \<Rightarrow>
          Some (obj\<lparr>items_name := n,
                    items_description := assigned (upd_description changes) (items_description obj),
                    items_price := p,
                    items_tags := assigned (upd_tags changes) (items_tags obj),
                    items_in_stock := s\<rparr>)
      | _ \<Rightarrow> None)"

text \<open>
  \<^verbatim>\<open>SQLItemRepo.update\<close>. The transaction is committed before \<^verbatim>\<open>_to_read\<close> runs; a
  failed flush commits nothing.
\<close>

definition SQLItemRepo_update ::
  "Items list \<Rightarrow> int \<Rightarrow> ItemUpdate \<Rightarrow> Items list \<times> (failure + ItemRead option)" where
  "SQLItemRepo_update tbl iid changes =
     (case session_get tbl iid of
        None \<Rightarrow> (tbl, Inr None)
      | Some obj \<Rightarrow>
          (case setattrs_flush obj changes of
             None \<Rightarrow> (tbl, Inl IntegrityError)
           | Some obj' \<Rightarrow>
               (map (\<lambda>r. if items_id r = iid then obj' else r) tbl,
                case SQLItemRepo_to_read obj' of Inl e \<Rightarrow> Inl e | Inr r \<Rightarrow> Inr (Some r))))"

section \<open>The item routes of version 2 (\<^verbatim>\<open>api/v2/items.py\<close>)\<close>

text \<open>
  Modelled from the spec: \<^verbatim>\<open>FastAPICache\<close> belongs to the fastapi-cache library, which is
  not under \<^verbatim>\<open>src/\<close>; \<^verbatim>\<open>core/cache.py\<close> gives it a Redis backend, a store of strings under
  string keys. The spec's contract with the cache backend is "coarse invalidation on any
  write": any create or update "must invalidate all previously cached reads of that
  resource namespace". The cache is therefore the list of its entries, key and stored
  response, and \<^verbatim>\<open>FastAPICache.clear()\<close> removes every entry. How the library builds a
  key for a request and how it encodes and decodes a response is not part of the model,
  and neither is the cached read itself.
\<close>

record app_state =
  st_items :: "Items list"
  st_cache :: "(string \<times> string) list"

definition FastAPICache_clear :: "app_state \<Rightarrow> app_state" where
  "FastAPICache_clear s = s\<lparr>st_cache := []\<rparr>"

text \<open>\<^verbatim>\<open>create_item\<close>: the cache is cleared after the row is created.\<close>

definition create_item :: "int \<Rightarrow> app_state \<Rightarrow> ItemCreate \<Rightarrow> app_state \<times> (failure + ItemRead)" where
  "create_item now s p =
     (case SQLItemRepo_create now (st_items s) p of
        (tbl', Inl e) \<Rightarrow> (s\<lparr>st_items := tbl'\<rparr>, Inl e)
      | (tbl', Inr item) \<Rightarrow> (FastAPICache_clear (s\<lparr>st_items := tbl'\<rparr>), Inr item))"

text \<open>
  \<^verbatim>\<open>create_items_bulk\<close>: the loop over the payloads; the function returns the created
  items and does nothing else.
\<close>

fun create_items_loop ::
  "int \<Rightarrow> Items list \<Rightarrow> ItemCreate list \<Rightarrow> ItemRead list \<Rightarrow> Items list \<times> (failure + ItemRead list)"
  where
  "create_items_loop now tbl [] created_items = (tbl, Inr created_items)"
| "create_items_loop now tbl (p # ps) created_items =
     (case SQLItemRepo_create now tbl p of
        (tbl', Inl e) \<Rightarrow> (tbl', Inl e)
      | (tbl', Inr created_item) \<Rightarrow> create_items_loop now tbl' ps (created_items @ [created_item]))"

definition create_items_bulk ::
  "int \<Rightarrow> app_state \<Rightarrow> ItemCreate list \<Rightarrow> app_state \<times> (failure + ItemRead list)" where
  "create_items_bulk now s payloads =
     (case create_items_loop now (st_items s) payloads [] of
        (tbl', r) \<Rightarrow> (s\<lparr>st_items := tbl'\<rparr>, r))"

text \<open>The dependency \<^verbatim>\<open>get_item_or_404\<close> and the route \<^verbatim>\<open>update_item\<close> that uses it.\<close>

definition not_found_exception :: http_exception where
  "not_found_exception = \<lparr>status_code = 404, detail = ''Item not found.'', headers = None\<rparr>"

definition get_item_or_404 :: "Items list \<Rightarrow> int \<Rightarrow> failure + ItemRead" where
  "get_item_or_404 tbl iid =
     (case SQLItemRepo_get tbl iid of
        Inl e \<Rightarrow> Inl e
      | Inr None \<Rightarrow> Inl (HTTPException not_found_exception)
      | Inr (Some item) \<Rightarrow> Inr item)"

definition update_item :: "app_state \<Rightarrow> int \<Rightarrow> ItemUpdate \<Rightarrow> app_state \<times> (failure + ItemRead)" where
  "update_item s iid changes =
     (case get_item_or_404 (st_items s) iid of
        Inl e \<Rightarrow> (s, Inl e)
      | Inr item \<Rightarrow>
          (case SQLItemRepo_update (st_items s) (item_id item) changes of
             (tbl', Inl e) \<Rightarrow> (s\<lparr>st_items := tbl'\<rparr>, Inl e)
           | (tbl', Inr None) \<Rightarrow> (s\<lparr>st_items := tbl'\<rparr>, Inl (HTTPException not_found_exception))
           | (tbl', Inr (Some updated)) \<Rightarrow>
               (FastAPICache_clear (s\<lparr>st_items := tbl'\<rparr>), Inr updated)))"

section \<open>Sample data\<close>

text \<open>
  The signup sample of \<^verbatim>\<open>db/db.py\<close> (user \<^verbatim>\<open>hari\<close>, password \<^verbatim>\<open>haridx\<close>, both scopes), a
  second user \<^verbatim>\<open>alice\<close> with the read scope only, and the first item of the bulk sample.
  \<open>demo_context\<close> stands in for bcrypt where a concrete hasher is needed: it prefixes the
  password with a marker and verifies by comparison.
\<close>

definition demo_context :: CryptContext where
  "demo_context = \<lparr>ctx_hash = (\<lambda>pw. ''$2b$'' @ pw), ctx_verify = (\<lambda>pw h. h = ''$2b$'' @ pw)\<rparr>"

definition hari_signup :: UserCreate where
  "hari_signup =
     \<lparr>username = ''hari'', full_name = Some ''poojary'', email = Some ''hari@example.com'',
      is_active = True, scopes = [''items:read'', ''items:write''], password = ''haridx''\<rparr>"

definition hari_row :: Users where
  "hari_row =
     \<lparr>users_id = 1, users_username = ''hari'', users_full_name = Some ''poojary'',
      users_email = Some ''hari@example.com'', users_is_active = True,
      users_scopes = [''items:read'', ''items:write''], users_hashed_password = ''$2b$haridx''\<rparr>"

definition alice_row :: Users where
  "alice_row =
     \<lparr>users_id = 2, users_username = ''alice'', users_full_name = None, users_email = None,
      users_is_active = True, users_scopes = [''items:read''],
      users_hashed_password = ''$2b$wonderland''\<rparr>"

definition alice_form :: OAuth2PasswordRequestForm where
  "alice_form =
     \<lparr>form_username = ''alice'', form_password = ''wonderland'', form_scopes = [''items:write'']\<rparr>"

definition mouse :: ItemCreate where
  "mouse =
     \<lparr>name = ''Wireless Mouse'', description = Some ''Ergonomic wireless mouse with USB receiver'',
      price = 799, tags = [''electronics'', ''mouse'', ''wireless''], in_stock = True\<rparr>"

definition mouse_row :: Items where
  "mouse_row =
     \<lparr>items_id = 1, items_name = ''Wireless Mouse'',
      items_description = Some ''Ergonomic wireless mouse with USB receiver'',
      items_price = 799, items_tags = Some [''electronics'', ''mouse'', ''wireless''],
      items_in_stock = True, items_created_at = 1000\<rparr>"

definition no_changes :: ItemUpdate where
  "no_changes =
     \<lparr>upd_name = Unset, upd_description = Unset, upd_price = Unset, upd_tags = Unset,
      upd_in_stock = Unset\<rparr>"

text \<open>
  Two bearer tokens signed with the application's key and algorithm, both expiring at
  second 1800: one for \<^verbatim>\<open>hari\<close> with the read scope, one that carries scopes but no
  \<^verbatim>\<open>sub\<close> claim.
\<close>

definition hari_token :: token where
  "hari_token =
     JWS ALGORITHM SECRET_KEY
       \<lparr>claim_sub = Some ''hari'', claim_scopes = Some [''items:read''], claim_exp = Some 1800\<rparr>"

definition anonymous_token :: token where
  "anonymous_token =
     JWS ALGORITHM SECRET_KEY
       \<lparr>claim_sub = None, claim_scopes = Some [''items:read''], claim_exp = Some 1800\<rparr>"

text \<open>
  The partial update \<^verbatim>\<open>{"price": 10}\<close> of the spec, and the item read back from
  \<open>mouse_row\<close>.
\<close>

definition price_only :: ItemUpdate where
  "price_only = no_changes\<lparr>upd_price := Assigned (Some 10)\<rparr>"

definition mouse_read :: ItemRead where
  "mouse_read =
     \<lparr>name = ''Wireless Mouse'', description = Some ''Ergonomic wireless mouse with USB receiver'',
      price = 799, tags = [''electronics'', ''mouse'', ''wireless''], in_stock = True,
      item_id = 1, created_at = 1000\<rparr>"

section \<open>Properties of the authorizer\<close>

subsection \<open>Auxiliary facts\<close>

lemma scope_gate_iff:
  "(security_scopes \<noteq> [] \<and> \<not> list_all (\<lambda>scope. scope \<in> set ts) security_scopes)
     = (\<not> set security_scopes \<subseteq> set ts)"
  by (auto simp: list_all_iff)

lemma status_unauthorized: "status_code unauthorized_exception = 401"
  by (simp add: unauthorized_exception_def)

lemma status_forbidden: "status_code (forbidden_exception ss) = 403"
  by (simp add: forbidden_exception_def)

lemma to_in_db_again: "SQLUserRepo_to_in_db_again u = u"
  by (simp add: SQLUserRepo_to_in_db_again_def)

lemma get_by_username_find:
  "SQLUserRepo_get_by_username tbl un =
     map_option SQLUserRepo_to_in_db (find (\<lambda>r. users_username r = un) tbl)"
  by (simp add: SQLUserRepo_get_by_username_def split: option.splits)

text \<open>
  Once the token has decoded and carries a subject, the rest of \<open>get_current_user\<close> is
  the scope gate followed by the lookup in the store.
\<close>

lemma get_current_user_decoded:
  assumes "jwt_decode tok SECRET_KEY [ALGORITHM] now = Inr p" and "claim_sub p = Some u"
  shows "get_current_user now tbl req tok =
     (if \<not> set req \<subseteq> set (token_scopes p) then Inl (HTTPException (forbidden_exception req))
      else case SQLUserRepo_get_by_username tbl u of
             None \<Rightarrow> Inl (HTTPException unauthorized_exception)
           | Some user \<Rightarrow> if is_active user then Inr (SQLUserRepo_to_in_db_again user)
                          else Inl (HTTPException unauthorized_exception))"
  using assms by (simp add: get_current_user_def scope_gate_iff split: option.splits)

lemma hari_token_decodes:
  "jwt_decode hari_token SECRET_KEY [ALGORITHM] 0 =
     Inr \<lparr>claim_sub = Some ''hari'', claim_scopes = Some [''items:read''], claim_exp = Some 1800\<rparr>"
  by (simp add: hari_token_def jwt_decode_def)

text \<open>Every failure of \<open>get_current_user\<close> is one of its two prepared exceptions.\<close>

lemma get_current_user_failures:
  assumes "get_current_user now tbl req tok = Inl f"
  shows "f = HTTPException unauthorized_exception \<or> f = HTTPException (forbidden_exception req)"
  using assms
  by (auto simp: get_current_user_def split: sum.splits option.splits if_splits)

subsection \<open>The scope gate\<close>

text \<open>
  Claim C1, as stated, fails. A token that is signed with the application's key and
  algorithm and has not expired, but carries no \<^verbatim>\<open>sub\<close> claim, decodes without error;
  \<open>get_current_user\<close> then raises its 401 from the check \<^verbatim>\<open>if username is None\<close>, before
  it looks at the scopes. With the required scope \<^verbatim>\<open>items:write\<close> absent from the
  token's scopes the answer is 401, where the claim promises 403 and never 401.
\<close>

theorem scope_gate_without_subject:
  "jwt_decode anonymous_token SECRET_KEY [ALGORITHM] 0 =
     Inr \<lparr>claim_sub = None, claim_scopes = Some [''items:read''], claim_exp = Some 1800\<rparr>
   \<and> ''items:write'' \<notin> set [''items:read'']
   \<and> get_current_user 0 [hari_row] [''items:write''] anonymous_token =
       Inl (HTTPException unauthorized_exception)
   \<and> response_status 200 (get_current_user 0 [hari_row] [''items:write''] anonymous_token) = 401"
  by (simp add: anonymous_token_def jwt_decode_def get_current_user_def response_status_def
      unauthorized_exception_def)

text \<open>
  Claim C1, amended: for every call of \<open>get_current_user\<close> with a token that decodes
  under the static key and algorithm and carries a \<^verbatim>\<open>sub\<close> claim: if every required
  scope is among the token's scopes (in particular if none is required) the scope gate
  passes, that is, the answer is the one of the lookup in the store and is never a 403;
  if some required scope is missing from the token's scopes the call fails with the
  403 exception, whatever the store holds.
\<close>

theorem scope_gate_monotonic:
  assumes "jwt_decode tok SECRET_KEY [ALGORITHM] now = Inr p" and "claim_sub p = Some u"
  shows "(set req \<subseteq> set (token_scopes p) \<longrightarrow>
            get_current_user now tbl req tok =
              (case SQLUserRepo_get_by_username tbl u of
                 None \<Rightarrow> Inl (HTTPException unauthorized_exception)
               | Some user \<Rightarrow> if is_active user then Inr (SQLUserRepo_to_in_db_again user)
                              else Inl (HTTPException unauthorized_exception))
            \<and> response_status 200 (get_current_user now tbl req tok) \<noteq> 403)
       \<and> (\<not> set req \<subseteq> set (token_scopes p) \<longrightarrow>
            get_current_user now tbl req tok = Inl (HTTPException (forbidden_exception req))
            \<and> response_status 200 (get_current_user now tbl req tok) = 403)"
  using get_current_user_decoded [OF assms, of tbl req]
  by (simp add: response_status_def status_unauthorized status_forbidden split: option.splits)

text \<open>
  Witness for C1: the token of \<^verbatim>\<open>hari\<close> with the read scope passes an endpoint that
  requires the read scope and is refused with 403 by one that requires the write scope.
\<close>

theorem scope_gate_monotonic_witness:
  "jwt_decode hari_token SECRET_KEY [ALGORITHM] 0 =
     Inr \<lparr>claim_sub = Some ''hari'', claim_scopes = Some [''items:read''], claim_exp = Some 1800\<rparr>
   \<and> get_current_user 0 [hari_row] [''items:read''] hari_token =
       Inr (SQLUserRepo_to_in_db hari_row)
   \<and> get_current_user 0 [hari_row] [] hari_token = Inr (SQLUserRepo_to_in_db hari_row)
   \<and> get_current_user 0 [hari_row] [''items:write''] hari_token =
       Inl (HTTPException (forbidden_exception [''items:write'']))"
  using scope_gate_monotonic [OF hari_token_decodes, of "''hari''" "[''items:read'']" "[hari_row]"]
    scope_gate_monotonic [OF hari_token_decodes, of "''hari''" "[]" "[hari_row]"]
    scope_gate_monotonic [OF hari_token_decodes, of "''hari''" "[''items:write'']" "[hari_row]"]
  by (simp add: hari_token_decodes token_scopes_def SQLUserRepo_get_by_username_def
      hari_row_def SQLUserRepo_to_in_db_def SQLUserRepo_to_in_db_again_def)

subsection \<open>Liveness of the subject\<close>

text \<open>
  Claim C2, as stated, fails. The scope gate runs before the lookup in the store, so a
  call whose required scope the token lacks is answered with 403 whether or not the
  subject is alive: with the unexpired token of \<^verbatim>\<open>hari\<close>, which carries the read scope
  only, an endpoint that requires the write scope answers 403, not 401, both when the
  row of \<^verbatim>\<open>hari\<close> is inactive and when the table holds no such user.
\<close>

theorem dead_subject_missing_scope_forbidden:
  "jwt_decode hari_token SECRET_KEY [ALGORITHM] 0 =
     Inr \<lparr>claim_sub = Some ''hari'', claim_scopes = Some [''items:read''], claim_exp = Some 1800\<rparr>
   \<and> SQLUserRepo_get_by_username [hari_row\<lparr>users_is_active := False\<rparr>] ''hari'' =
       Some ((SQLUserRepo_to_in_db hari_row)\<lparr>is_active := False\<rparr>)
   \<and> get_current_user 0 [hari_row\<lparr>users_is_active := False\<rparr>] [''items:write''] hari_token =
       Inl (HTTPException (forbidden_exception [''items:write'']))
   \<and> response_status 200
       (get_current_user 0 [hari_row\<lparr>users_is_active := False\<rparr>] [''items:write''] hari_token) = 403
   \<and> SQLUserRepo_get_by_username [] ''hari'' = None
   \<and> get_current_user 0 [] [''items:write''] hari_token =
       Inl (HTTPException (forbidden_exception [''items:write'']))
   \<and> response_status 200 (get_current_user 0 [] [''items:write''] hari_token) = 403"
  by (simp add: hari_token_def jwt_decode_def get_current_user_def token_scopes_def
      SQLUserRepo_get_by_username_def SQLUserRepo_to_in_db_def hari_row_def
      response_status_def forbidden_exception_def)

text \<open>
  Claim C2, amended: let the token decode (signed with the static key, not expired) and
  name the subject \<open>u\<close>, and let the store, as it is at the time of the call, hold no user
  \<open>u\<close> or hold \<open>u\<close> with \<^verbatim>\<open>is_active\<close> false. Then every call fails: with the 401
  exception when the token's scopes cover the required ones (in particular when none is
  required), and with the 403 exception when a required scope is missing, because the
  lookup comes after the scope gate. No call returns a user. The store is an argument
  of the call, so the check is made against its current content each time.
\<close>

theorem dead_subject_rejected:
  assumes "jwt_decode tok SECRET_KEY [ALGORITHM] now = Inr p" and "claim_sub p = Some u"
    and "SQLUserRepo_get_by_username tbl u = None
         \<or> (\<exists>user. SQLUserRepo_get_by_username tbl u = Some user \<and> \<not> is_active user)"
  shows "(set req \<subseteq> set (token_scopes p) \<longrightarrow>
            get_current_user now tbl req tok = Inl (HTTPException unauthorized_exception)
            \<and> response_status 200 (get_current_user now tbl req tok) = 401)
       \<and> (\<not> set req \<subseteq> set (token_scopes p) \<longrightarrow>
            get_current_user now tbl req tok = Inl (HTTPException (forbidden_exception req))
            \<and> response_status 200 (get_current_user now tbl req tok) = 403)
       \<and> (\<forall>user. get_current_user now tbl req tok \<noteq> Inr user)"
  using get_current_user_decoded [OF assms(1,2), of tbl req] assms(3)
  by (auto simp: response_status_def status_unauthorized status_forbidden)

text \<open>
  Witness for C2: the same token is accepted while \<^verbatim>\<open>hari\<close> is active; once the row is
  inactive it is refused with 401 where the read scope is required and with 403 where
  the write scope is required; on the empty table it is refused with 401.
\<close>

theorem dead_subject_rejected_witness:
  "jwt_decode hari_token SECRET_KEY [ALGORITHM] 0 =
     Inr \<lparr>claim_sub = Some ''hari'', claim_scopes = Some [''items:read''], claim_exp = Some 1800\<rparr>
   \<and> SQLUserRepo_get_by_username [hari_row\<lparr>users_is_active := False\<rparr>] ''hari'' =
       Some ((SQLUserRepo_to_in_db hari_row)\<lparr>is_active := False\<rparr>)
   \<and> get_current_user 0 [hari_row] [''items:read''] hari_token = Inr (SQLUserRepo_to_in_db hari_row)
   \<and> get_current_user 0 [hari_row\<lparr>users_is_active := False\<rparr>] [''items:read''] hari_token =
       Inl (HTTPException unauthorized_exception)
   \<and> get_current_user 0 [hari_row\<lparr>users_is_active := False\<rparr>] [''items:write''] hari_token =
       Inl (HTTPException (forbidden_exception [''items:write'']))
   \<and> get_current_user 0 [] [] hari_token = Inl (HTTPException unauthorized_exception)"
proof -
  let ?p = "\<lparr>claim_sub = Some ''hari'', claim_scopes = Some [''items:read''], claim_exp = Some 1800\<rparr>"
  let ?dead = "[hari_row\<lparr>users_is_active := False\<rparr>]"
  have look: "SQLUserRepo_get_by_username ?dead ''hari'' =
      Some ((SQLUserRepo_to_in_db hari_row)\<lparr>is_active := False\<rparr>)"
    by (simp add: SQLUserRepo_get_by_username_def SQLUserRepo_to_in_db_def hari_row_def)
  have sub: "claim_sub ?p = Some ''hari''" by simp
  have dead: "SQLUserRepo_get_by_username ?dead ''hari'' = None
      \<or> (\<exists>user. SQLUserRepo_get_by_username ?dead ''hari'' = Some user \<and> \<not> is_active user)"
    by (simp add: look)
  have none: "SQLUserRepo_get_by_username [] ''hari'' = None
      \<or> (\<exists>user. SQLUserRepo_get_by_username [] ''hari'' = Some user \<and> \<not> is_active user)"
    by (simp add: SQLUserRepo_get_by_username_def)
  have alive: "get_current_user 0 [hari_row] [''items:read''] hari_token =
      Inr (SQLUserRepo_to_in_db hari_row)"
    using get_current_user_decoded [OF hari_token_decodes sub, of "[hari_row]" "[''items:read'']"]
    by (simp add: token_scopes_def SQLUserRepo_get_by_username_def hari_row_def
        SQLUserRepo_to_in_db_def to_in_db_again)
  show ?thesis
    using dead_subject_rejected [OF hari_token_decodes sub dead, of "[''items:read'']"]
      dead_subject_rejected [OF hari_token_decodes sub dead, of "[''items:write'']"]
      dead_subject_rejected [OF hari_token_decodes sub none, of "[]"]
    by (simp add: hari_token_decodes look alive token_scopes_def)
qed

subsection \<open>Issuing and verifying tokens\<close>

text \<open>
  Claim C3: the token \<open>create_access_token\<close> makes at second \<open>t0\<close> for the subject \<open>sub\<close>
  and the scopes \<open>scs\<close> with \<open>ttl\<close> minutes to live decodes, under the same key and
  algorithm, at every second up to \<open>t0 + 60 * ttl\<close>, to claims with exactly that subject
  and those scopes (and the expiry \<open>t0 + 60 * ttl\<close>); at every later second decoding fails
  with the expiry error, which \<open>get_current_user\<close> answers with its 401 exception.
\<close>

theorem token_roundtrip_then_expiry:
  fixes sub :: string and scs :: "string list" and ttl t0 t :: int
  defines "tok \<equiv> create_access_token t0
             \<lparr>claim_sub = Some sub, claim_scopes = Some scs, claim_exp = None\<rparr> ttl"
  shows "(t \<le> t0 + 60 * ttl \<longrightarrow>
            (\<exists>p. jwt_decode tok SECRET_KEY [ALGORITHM] t = Inr p
                 \<and> claim_sub p = Some sub \<and> claim_scopes p = Some scs \<and> token_scopes p = scs
                 \<and> claim_exp p = Some (t0 + 60 * ttl)))
       \<and> (t0 + 60 * ttl < t \<longrightarrow>
            jwt_decode tok SECRET_KEY [ALGORITHM] t = Inl ExpiredSignatureError
            \<and> get_current_user t tbl req tok = Inl (HTTPException unauthorized_exception)
            \<and> response_status 200 (get_current_user t tbl req tok) = 401)"
  by (simp add: tok_def create_access_token_def jwt_encode_def jwt_decode_def
      get_current_user_def response_status_def status_unauthorized token_scopes_def)

text \<open>
  Witness for C3: a token issued at second 0 for 30 minutes decodes at second 1800 and
  has expired at second 1801.
\<close>

theorem token_roundtrip_then_expiry_witness:
  "jwt_decode
     (create_access_token 0
        \<lparr>claim_sub = Some ''hari'', claim_scopes = Some [''items:read''], claim_exp = None\<rparr> 30)
     SECRET_KEY [ALGORITHM] 1800 =
     Inr \<lparr>claim_sub = Some ''hari'', claim_scopes = Some [''items:read''], claim_exp = Some 1800\<rparr>
   \<and> jwt_decode
     (create_access_token 0
        \<lparr>claim_sub = Some ''hari'', claim_scopes = Some [''items:read''], claim_exp = None\<rparr> 30)
     SECRET_KEY [ALGORITHM] 1801 = Inl ExpiredSignatureError
   \<and> get_current_user 1801 [hari_row] []
     (create_access_token 0
        \<lparr>claim_sub = Some ''hari'', claim_scopes = Some [''items:read''], claim_exp = None\<rparr> 30) =
     Inl (HTTPException unauthorized_exception)"
  using token_roundtrip_then_expiry [of 1800 0 30 "''hari''" "[''items:read'']" "[hari_row]" "[]"]
    token_roundtrip_then_expiry [of 1801 0 30 "''hari''" "[''items:read'']" "[hari_row]" "[]"]
  by auto

section \<open>Properties of authentication and the token exchange\<close>

text \<open>
  Claim C6: \<open>authenticate_user\<close> returns a user exactly when the table has a row with
  that username (the first one, which \<^verbatim>\<open>.first()\<close> picks) and the password verifies
  against the hash stored in it, and the user returned is that row in full: username,
  full name, email, active flag, scopes and hashed password. It returns \<open>None\<close> when no
  row has the username, and \<open>None\<close> when the row is there and the password does not
  verify.
\<close>

theorem authenticate_user_cases:
  "(authenticate_user ctx tbl un pw = Some user \<longleftrightarrow>
      (\<exists>row. find (\<lambda>r. users_username r = un) tbl = Some row
         \<and> verify_password ctx pw (users_hashed_password row)
         \<and> user = \<lparr>username = users_username row, full_name = users_full_name row,
                    email = users_email row, is_active = users_is_active row,
                    scopes = users_scopes row,
                    hashed_password = users_hashed_password row\<rparr>))
   \<and> ((\<forall>row \<in> set tbl. users_username row \<noteq> un) \<longrightarrow> authenticate_user ctx tbl un pw = None)
   \<and> (\<forall>row. find (\<lambda>r. users_username r = un) tbl = Some row
         \<and> \<not> verify_password ctx pw (users_hashed_password row)
       \<longrightarrow> authenticate_user ctx tbl un pw = None)"
proof (intro conjI)
  show "authenticate_user ctx tbl un pw = Some user \<longleftrightarrow>
      (\<exists>row. find (\<lambda>r. users_username r = un) tbl = Some row
         \<and> verify_password ctx pw (users_hashed_password row)
         \<and> user = \<lparr>username = users_username row, full_name = users_full_name row,
                    email = users_email row, is_active = users_is_active row,
                    scopes = users_scopes row,
                    hashed_password = users_hashed_password row\<rparr>)"
    by (cases "find (\<lambda>r. users_username r = un) tbl")
      (auto simp: authenticate_user_def get_by_username_find SQLUserRepo_to_in_db_def)
  show "(\<forall>row \<in> set tbl. users_username row \<noteq> un) \<longrightarrow> authenticate_user ctx tbl un pw = None"
  proof
    assume "\<forall>row \<in> set tbl. users_username row \<noteq> un"
    then have "find (\<lambda>r. users_username r = un) tbl = None"
      by (simp add: find_None_iff)
    then show "authenticate_user ctx tbl un pw = None"
      by (simp add: authenticate_user_def get_by_username_find)
  qed
  show "\<forall>row. find (\<lambda>r. users_username r = un) tbl = Some row
         \<and> \<not> verify_password ctx pw (users_hashed_password row)
       \<longrightarrow> authenticate_user ctx tbl un pw = None"
    by (auto simp: authenticate_user_def get_by_username_find SQLUserRepo_to_in_db_def)
qed

text \<open>
  Witness for C6: with two users in the table, \<^verbatim>\<open>alice\<close> is returned for her own
  password, and nothing is returned for a wrong password or for an unknown username.
\<close>

theorem authenticate_user_cases_witness:
  "authenticate_user demo_context [hari_row, alice_row] ''alice'' ''wonderland'' =
     Some (SQLUserRepo_to_in_db alice_row)
   \<and> authenticate_user demo_context [hari_row, alice_row] ''alice'' ''haridx'' = None
   \<and> authenticate_user demo_context [hari_row, alice_row] ''bob'' ''haridx'' = None"
proof -
  have f: "find (\<lambda>r. users_username r = ''alice'') [hari_row, alice_row] = Some alice_row"
    by (simp add: hari_row_def alice_row_def)
  have ok: "verify_password demo_context ''wonderland'' (users_hashed_password alice_row)"
    by (simp add: verify_password_def demo_context_def alice_row_def)
  have bad: "\<not> verify_password demo_context ''haridx'' (users_hashed_password alice_row)"
    by (simp add: verify_password_def demo_context_def alice_row_def)
  have nobody: "\<forall>row \<in> set [hari_row, alice_row]. users_username row \<noteq> ''bob''"
    by (simp add: hari_row_def alice_row_def)
  show ?thesis
    using authenticate_user_cases [of demo_context "[hari_row, alice_row]" "''alice''"
        "''wonderland''" "SQLUserRepo_to_in_db alice_row"]
      authenticate_user_cases [of demo_context "[hari_row, alice_row]" "''alice''" "''haridx''"]
      authenticate_user_cases [of demo_context "[hari_row, alice_row]" "''bob''" "''haridx''"]
      f ok bad nobody
    by (simp add: SQLUserRepo_to_in_db_def)
qed

text \<open>
  Claim C10: when the token exchange succeeds, the token it issues names the
  authenticated user and carries the scopes of the form when the form asks for any, and
  the user's stored scopes only when the form asks for none. Nothing compares the
  requested scopes with the stored ones: there are a user, whose stored scopes do not
  include a requested scope, and a form, for which the issued token carries the
  requested scopes and passes \<open>get_current_user\<close> for an endpoint that requires them.
\<close>

theorem login_scopes_unchecked:
  "(login_for_access_token ctx now tbl form_data = Inr resp \<longrightarrow>
      (\<exists>user p. authenticate_user ctx tbl (form_username form_data) (form_password form_data) = Some user
         \<and> jwt_decode (access_token resp) SECRET_KEY [ALGORITHM] now = Inr p
         \<and> claim_sub p = Some (username user)
         \<and> token_scopes p =
             (if form_scopes form_data \<noteq> [] then form_scopes form_data else scopes user)))
   \<and> (\<exists>tbl' form' granted resp' u.
         SQLUserRepo_get_by_username tbl' (form_username form') = Some granted
         \<and> \<not> set (form_scopes form') \<subseteq> set (scopes granted)
         \<and> login_for_access_token demo_context 0 tbl' form' = Inr resp'
         \<and> access_token resp' =
             JWS ALGORITHM SECRET_KEY
               \<lparr>claim_sub = Some (username granted), claim_scopes = Some (form_scopes form'),
                claim_exp = Some 1800\<rparr>
         \<and> get_current_user 0 tbl' (form_scopes form') (access_token resp') = Inr u)"
proof (intro conjI impI)
  assume ok: "login_for_access_token ctx now tbl form_data = Inr resp"
  then obtain user where
    auth: "authenticate_user ctx tbl (form_username form_data) (form_password form_data) = Some user"
    by (auto simp: login_for_access_token_def split: option.splits)
  let ?rs = "if form_scopes form_data \<noteq> [] then form_scopes form_data else scopes user"
  let ?p = "\<lparr>claim_sub = Some (username user), claim_scopes = Some ?rs,
             claim_exp = Some (now + 60 * ACCESS_TOKEN_EXPIRE_MINUTES)\<rparr>"
  from ok auth have tok: "access_token resp = JWS ALGORITHM SECRET_KEY ?p"
    by (auto simp: login_for_access_token_def create_access_token_def jwt_encode_def Let_def)
  have "jwt_decode (access_token resp) SECRET_KEY [ALGORITHM] now = Inr ?p"
    by (simp add: tok jwt_decode_def ACCESS_TOKEN_EXPIRE_MINUTES_def)
  moreover have "claim_sub ?p = Some (username user)" by simp
  moreover have "token_scopes ?p = ?rs" by (simp add: token_scopes_def)
  ultimately show "\<exists>user p. authenticate_user ctx tbl (form_username form_data) (form_password form_data) = Some user
         \<and> jwt_decode (access_token resp) SECRET_KEY [ALGORITHM] now = Inr p
         \<and> claim_sub p = Some (username user)
         \<and> token_scopes p =
             (if form_scopes form_data \<noteq> [] then form_scopes form_data else scopes user)"
    using auth by blast
next
  let ?tok = "JWS ALGORITHM SECRET_KEY
               \<lparr>claim_sub = Some ''alice'', claim_scopes = Some [''items:write''],
                claim_exp = Some 1800\<rparr>"
  have 1: "SQLUserRepo_get_by_username [alice_row] (form_username alice_form) =
      Some (SQLUserRepo_to_in_db alice_row)"
    by (simp add: SQLUserRepo_get_by_username_def alice_row_def alice_form_def)
  have 2: "\<not> set (form_scopes alice_form) \<subseteq> set (scopes (SQLUserRepo_to_in_db alice_row))"
    by (simp add: alice_form_def alice_row_def SQLUserRepo_to_in_db_def)
  have 3: "login_for_access_token demo_context 0 [alice_row] alice_form =
      Inr \<lparr>access_token = ?tok, token_type = ''bearer''\<rparr>"
    by (simp add: login_for_access_token_def authenticate_user_def
        SQLUserRepo_get_by_username_def verify_password_def
        demo_context_def SQLUserRepo_to_in_db_def alice_row_def alice_form_def
        create_access_token_def jwt_encode_def ACCESS_TOKEN_EXPIRE_MINUTES_def)
  have 4: "get_current_user 0 [alice_row] (form_scopes alice_form) ?tok =
      Inr (SQLUserRepo_to_in_db alice_row)"
    by (simp add: get_current_user_def jwt_decode_def token_scopes_def alice_form_def
        SQLUserRepo_get_by_username_def alice_row_def SQLUserRepo_to_in_db_def
        SQLUserRepo_to_in_db_again_def)
  have 5: "username (SQLUserRepo_to_in_db alice_row) = ''alice''"
    "form_scopes alice_form = [''items:write'']"
    by (simp_all add: SQLUserRepo_to_in_db_def alice_row_def alice_form_def)
  show "\<exists>tbl' form' granted resp' u.
         SQLUserRepo_get_by_username tbl' (form_username form') = Some granted
         \<and> \<not> set (form_scopes form') \<subseteq> set (scopes granted)
         \<and> login_for_access_token demo_context 0 tbl' form' = Inr resp'
         \<and> access_token resp' =
             JWS ALGORITHM SECRET_KEY
               \<lparr>claim_sub = Some (username granted), claim_scopes = Some (form_scopes form'),
                claim_exp = Some 1800\<rparr>
         \<and> get_current_user 0 tbl' (form_scopes form') (access_token resp') = Inr u"
    apply (rule exI [of _ "[alice_row]"])
    apply (rule exI [of _ alice_form])
    apply (rule exI [of _ "SQLUserRepo_to_in_db alice_row"])
    apply (rule exI [of _ "\<lparr>access_token = ?tok, token_type = ''bearer''\<rparr>"])
    apply (rule exI [of _ "SQLUserRepo_to_in_db alice_row"])
    using 1 2 3 4 5 by simp
qed

text \<open>
  Witness for C10: \<^verbatim>\<open>hari\<close> logs in without asking for scopes and gets a token with his
  stored scopes; \<^verbatim>\<open>alice\<close>, who holds the read scope only, asks for the write scope and
  gets a token that carries it.
\<close>

theorem login_scopes_unchecked_witness:
  "login_for_access_token demo_context 0 [hari_row, alice_row]
     \<lparr>form_username = ''hari'', form_password = ''haridx'', form_scopes = []\<rparr> =
     Inr \<lparr>access_token =
            JWS ALGORITHM SECRET_KEY
              \<lparr>claim_sub = Some ''hari'', claim_scopes = Some [''items:read'', ''items:write''],
               claim_exp = Some 1800\<rparr>,
          token_type = ''bearer''\<rparr>
   \<and> login_for_access_token demo_context 0 [hari_row, alice_row] alice_form =
     Inr \<lparr>access_token =
            JWS ALGORITHM SECRET_KEY
              \<lparr>claim_sub = Some ''alice'', claim_scopes = Some [''items:write''],
               claim_exp = Some 1800\<rparr>,
          token_type = ''bearer''\<rparr>
   \<and> (\<exists>user p.
         authenticate_user demo_context [hari_row, alice_row] ''alice'' ''wonderland'' = Some user
         \<and> jwt_decode
             (JWS ALGORITHM SECRET_KEY
                \<lparr>claim_sub = Some ''alice'', claim_scopes = Some [''items:write''],
                 claim_exp = Some 1800\<rparr>)
             SECRET_KEY [ALGORITHM] 0 = Inr p
         \<and> token_scopes p = [''items:write''])"
proof -
  let ?hari_form = "\<lparr>form_username = ''hari'', form_password = ''haridx'', form_scopes = []\<rparr>"
  let ?hari_resp = "\<lparr>access_token =
            JWS ALGORITHM SECRET_KEY
              \<lparr>claim_sub = Some ''hari'', claim_scopes = Some [''items:read'', ''items:write''],
               claim_exp = Some 1800\<rparr>,
          token_type = ''bearer''\<rparr>"
  let ?alice_resp = "\<lparr>access_token =
            JWS ALGORITHM SECRET_KEY
              \<lparr>claim_sub = Some ''alice'', claim_scopes = Some [''items:write''],
               claim_exp = Some 1800\<rparr>,
          token_type = ''bearer''\<rparr>"
  have h: "login_for_access_token demo_context 0 [hari_row, alice_row] ?hari_form = Inr ?hari_resp"
    by (simp add: login_for_access_token_def authenticate_user_def
        SQLUserRepo_get_by_username_def verify_password_def
        demo_context_def SQLUserRepo_to_in_db_def hari_row_def alice_row_def
        create_access_token_def jwt_encode_def ACCESS_TOKEN_EXPIRE_MINUTES_def)
  have a: "login_for_access_token demo_context 0 [hari_row, alice_row] alice_form = Inr ?alice_resp"
    by (simp add: login_for_access_token_def authenticate_user_def
        SQLUserRepo_get_by_username_def verify_password_def
        demo_context_def SQLUserRepo_to_in_db_def hari_row_def alice_row_def alice_form_def
        create_access_token_def jwt_encode_def ACCESS_TOKEN_EXPIRE_MINUTES_def)
  have af: "form_username alice_form = ''alice''" "form_password alice_form = ''wonderland''"
    "form_scopes alice_form = [''items:write'']"
    by (simp_all add: alice_form_def)
  show ?thesis
    using login_scopes_unchecked [of demo_context 0 "[hari_row, alice_row]" alice_form ?alice_resp]
      h a af
    by auto
qed

section \<open>Properties of signup\<close>

text \<open>
  \<open>SQLUserRepo_create\<close> on a username the table already holds raises the engine's
  \<open>IntegrityError\<close>, and \<open>signup\<close>, which catches \<open>ValueError\<close> only, lets it through.
\<close>

lemma SQLUserRepo_create_duplicate:
  assumes "\<exists>r \<in> set tbl. users_username r = username p"
  shows "SQLUserRepo_create ctx tbl p = (tbl, Inl IntegrityError)"
  using assms by (simp add: SQLUserRepo_create_def)

lemma signup_duplicate:
  assumes "\<exists>r \<in> set tbl. users_username r = username p"
  shows "signup ctx tbl p = (tbl, Inl IntegrityError)"
  by (simp add: signup_def SQLUserRepo_create_duplicate [OF assms])

text \<open>
  On a new username \<open>signup\<close> appends one row and the usernames of the table stay
  pairwise distinct.
\<close>

lemma signup_fresh:
  assumes "\<forall>r \<in> set tbl. users_username r \<noteq> username p"
  shows "\<exists>obj. signup ctx tbl p = (tbl @ [obj], Inr (SQLUserRepo_to_read obj))
           \<and> users_username obj = username p
           \<and> users_hashed_password obj = get_password_hash ctx (password p)"
  using assms by (simp add: signup_def SQLUserRepo_create_def Let_def)

lemma signup_keeps_usernames_distinct:
  assumes "distinct (map users_username tbl)"
  shows "distinct (map users_username (fst (signup ctx tbl p)))"
proof (cases "\<exists>r \<in> set tbl. users_username r = username p")
  case True
  then show ?thesis using assms by (simp add: signup_duplicate)
next
  case False
  then have "\<forall>r \<in> set tbl. users_username r \<noteq> username p" by simp
  from signup_fresh [OF this, of ctx] obtain obj where
    "signup ctx tbl p = (tbl @ [obj], Inr (SQLUserRepo_to_read obj))"
    "users_username obj = username p" by blast
  with assms False show ?thesis by auto
qed

text \<open>The in-memory store raises \<open>ValueError\<close> on a duplicate, which \<open>signup\<close> catches.\<close>

lemma UserDB_create_duplicate:
  assumes "map_of (db_users db) (username p) \<noteq> None"
  shows "UserDB_create db p hashed = (db, Inl ValueError)"
  using assms by (simp add: UserDB_create_def)

text \<open>
  Claim C4, the code at the failing input: signing \<^verbatim>\<open>hari\<close> up on the empty table stores
  his row, and signing him up a second time returns no 400 response: the
  \<open>IntegrityError\<close> of the flush leaves the handler, and the response is a 500.
\<close>

theorem signup_duplicate_is_internal_error:
  "signup demo_context [] hari_signup = ([hari_row], Inr (SQLUserRepo_to_read hari_row))
   \<and> signup demo_context [hari_row] hari_signup = ([hari_row], Inl IntegrityError)
   \<and> response_status 201 (snd (signup demo_context [hari_row] hari_signup)) = 500"
  by (simp add: signup_def SQLUserRepo_create_def get_password_hash_def demo_context_def
      hari_signup_def hari_row_def next_users_id_def SQLUserRepo_to_read_def
      response_status_def)

section \<open>Properties of the error responses\<close>

lemma header_unauthorized:
  "header unauthorized_exception ''WWW-Authenticate'' = Some ''Bearer''"
  by (simp add: header_def unauthorized_exception_def)

lemma header_forbidden:
  "header (forbidden_exception req) ''WWW-Authenticate'' =
     Some (''Bearer scope='' @ [CHR 0x22] @ str_join '' '' req @ [CHR 0x22])"
  by (simp add: header_def forbidden_exception_def)

text \<open>
  Every failure of \<open>get_current_user\<close> carries the challenge header, and its 403 names
  the required scopes in it.
\<close>

lemma get_current_user_challenge:
  assumes "get_current_user now tbl req tok = Inl f"
  shows "\<exists>e. f = HTTPException e \<and> header e ''WWW-Authenticate'' \<noteq> None
           \<and> (status_code e = 401 \<or> status_code e = 403)
           \<and> (status_code e = 403 \<longrightarrow>
                header e ''WWW-Authenticate'' =
                  Some (''Bearer scope='' @ [CHR 0x22] @ str_join '' '' req @ [CHR 0x22]))"
  using get_current_user_failures [OF assms]
  by (auto simp: header_unauthorized header_forbidden status_unauthorized status_forbidden)

text \<open>Every failure of the token exchange is the 401 built without headers.\<close>

lemma login_failure:
  assumes "login_for_access_token ctx now tbl form_data = Inl f"
  shows "f = HTTPException
           \<lparr>status_code = 401, detail = ''Incorrect username or password.'', headers = None\<rparr>"
  using assms by (auto simp: login_for_access_token_def Let_def split: option.splits)

text \<open>
  Claim C8, the code at the failing input: the token exchange with a wrong password
  answers 401, and that response has no \<^verbatim>\<open>WWW-Authenticate\<close> header, while the 401 of
  \<open>get_current_user\<close> has one.
\<close>

theorem login_failure_without_challenge:
  "login_for_access_token demo_context 0 [hari_row]
     \<lparr>form_username = ''hari'', form_password = ''wrong'', form_scopes = []\<rparr> =
     Inl (HTTPException
       \<lparr>status_code = 401, detail = ''Incorrect username or password.'', headers = None\<rparr>)
   \<and> header \<lparr>status_code = 401, detail = ''Incorrect username or password.'', headers = None\<rparr>
       ''WWW-Authenticate'' = None
   \<and> header unauthorized_exception ''WWW-Authenticate'' = Some ''Bearer''"
  by (simp add: login_for_access_token_def authenticate_user_def SQLUserRepo_get_by_username_def
      SQLUserRepo_to_in_db_def verify_password_def demo_context_def hari_row_def header_def
      unauthorized_exception_def)

section \<open>What the authorizer hands to the handlers\<close>

text \<open>
  Whenever \<open>get_current_user\<close> returns, the record it returns holds the hashed password
  of a row of the table.
\<close>

lemma get_current_user_returns_row:
  assumes "get_current_user now tbl req tok = Inr u"
  shows "\<exists>row \<in> set tbl. u = SQLUserRepo_to_in_db row
           \<and> hashed_password u = users_hashed_password row"
proof -
  from assms obtain un where "SQLUserRepo_get_by_username tbl un = Some u"
    by (auto simp: get_current_user_def to_in_db_again split: sum.splits option.splits if_splits)
  then obtain row where "find (\<lambda>r. users_username r = un) tbl = Some row"
    and u: "u = SQLUserRepo_to_in_db row"
    by (auto simp: get_by_username_find)
  then have "row \<in> set tbl" by (auto simp: find_Some_iff)
  with u show ?thesis by (auto simp: SQLUserRepo_to_in_db_def)
qed

text \<open>
  Claim C9, the code at the failing input: for the token of \<^verbatim>\<open>hari\<close>, the record that
  \<open>get_current_user\<close> returns to the handler is a \<^verbatim>\<open>UserInDB\<close> with his hashed password
  in it.
\<close>

theorem get_current_user_returns_hashed_password:
  "get_current_user 0 [hari_row] [''items:read''] hari_token =
     Inr \<lparr>username = ''hari'', full_name = Some ''poojary'', email = Some ''hari@example.com'',
          is_active = True, scopes = [''items:read'', ''items:write''],
          hashed_password = ''$2b$haridx''\<rparr>
   \<and> hashed_password
       \<lparr>username = ''hari'', full_name = Some ''poojary'', email = Some ''hari@example.com'',
        is_active = True, scopes = [''items:read'', ''items:write''],
        hashed_password = ''$2b$haridx''\<rparr> = users_hashed_password hari_row"
  by (simp add: get_current_user_def hari_token_def jwt_decode_def token_scopes_def
      SQLUserRepo_get_by_username_def SQLUserRepo_to_in_db_def SQLUserRepo_to_in_db_again_def
      hari_row_def)

section \<open>Properties of partial update\<close>

lemma session_get_Some:
  assumes "session_get tbl iid = Some obj"
  shows "obj \<in> set tbl" and "items_id obj = iid"
  using assms by (auto simp: session_get_def find_Some_iff)

lemma session_get_replaced:
  assumes "session_get tbl iid = Some obj" and "items_id obj' = iid"
  shows "session_get (map (\<lambda>r. if items_id r = iid then obj' else r) tbl) iid = Some obj'"
  using assms unfolding session_get_def
  by (induction tbl) (auto split: if_splits)

lemma setattrs_flush_Some:
  assumes "upd_name changes \<noteq> Assigned None" and "upd_price changes \<noteq> Assigned None"
    and "upd_in_stock changes \<noteq> Assigned None"
  shows "setattrs_flush obj changes =
     Some (obj\<lparr>items_name := (case upd_name changes of Assigned (Some v) \<Rightarrow> v | _ \<Rightarrow> items_name obj),
               items_description := assigned (upd_description changes) (items_description obj),
               items_price := (case upd_price changes of Assigned (Some v) \<Rightarrow> v | _ \<Rightarrow> items_price obj),
               items_tags := assigned (upd_tags changes) (items_tags obj),
               items_in_stock :=
                 (case upd_in_stock changes of Assigned (Some v) \<Rightarrow> v | _ \<Rightarrow> items_in_stock obj)\<rparr>)"
  using assms
  by (auto simp: setattrs_flush_def assigned_def split: field.splits option.splits)

text \<open>What a flush that succeeds leaves alone: the key, the creation time, every unset field.\<close>

lemma setattrs_flush_frame:
  assumes "setattrs_flush obj changes = Some obj'"
  shows "items_id obj' = items_id obj \<and> items_created_at obj' = items_created_at obj
     \<and> (upd_name changes = Unset \<longrightarrow> items_name obj' = items_name obj)
     \<and> (upd_description changes = Unset \<longrightarrow> items_description obj' = items_description obj)
     \<and> (upd_price changes = Unset \<longrightarrow> items_price obj' = items_price obj)
     \<and> (upd_tags changes = Unset \<longrightarrow> items_tags obj' = items_tags obj)
     \<and> (upd_in_stock changes = Unset \<longrightarrow> items_in_stock obj' = items_in_stock obj)"
  using assms
  by (auto simp: setattrs_flush_def assigned_def split: field.splits option.splits prod.splits)

lemma update_table:
  "fst (SQLItemRepo_update tbl iid changes) =
     (case session_get tbl iid of
        None \<Rightarrow> tbl
      | Some obj \<Rightarrow>
          (case setattrs_flush obj changes of
             None \<Rightarrow> tbl
           | Some obj' \<Rightarrow> map (\<lambda>r. if items_id r = iid then obj' else r) tbl))"
  by (simp add: SQLItemRepo_update_def split: option.splits)

lemma update_frame_row:
  assumes d: "distinct (map items_id tbl)" and i: "i < length tbl"
  shows "items_id (fst (SQLItemRepo_update tbl iid changes) ! i) = items_id (tbl ! i)
     \<and> items_created_at (fst (SQLItemRepo_update tbl iid changes) ! i) = items_created_at (tbl ! i)
     \<and> (upd_name changes = Unset \<longrightarrow>
          items_name (fst (SQLItemRepo_update tbl iid changes) ! i) = items_name (tbl ! i))
     \<and> (upd_description changes = Unset \<longrightarrow>
          items_description (fst (SQLItemRepo_update tbl iid changes) ! i) =
            items_description (tbl ! i))
     \<and> (upd_price changes = Unset \<longrightarrow>
          items_price (fst (SQLItemRepo_update tbl iid changes) ! i) = items_price (tbl ! i))
     \<and> (upd_tags changes = Unset \<longrightarrow>
          items_tags (fst (SQLItemRepo_update tbl iid changes) ! i) = items_tags (tbl ! i))
     \<and> (upd_in_stock changes = Unset \<longrightarrow>
          items_in_stock (fst (SQLItemRepo_update tbl iid changes) ! i) = items_in_stock (tbl ! i))
     \<and> (items_id (tbl ! i) \<noteq> iid \<longrightarrow> fst (SQLItemRepo_update tbl iid changes) ! i = tbl ! i)"
proof (cases "session_get tbl iid")
  case None
  then show ?thesis by (simp add: update_table)
next
  case (Some obj)
  note found = this
  show ?thesis
  proof (cases "setattrs_flush obj changes")
    case None
    with found show ?thesis by (simp add: update_table)
  next
    case (Some obj')
    have tbl': "fst (SQLItemRepo_update tbl iid changes) ! i =
        (if items_id (tbl ! i) = iid then obj' else tbl ! i)"
      using found Some i by (simp add: update_table)
    show ?thesis
    proof (cases "items_id (tbl ! i) = iid")
      case False
      with tbl' show ?thesis by simp
    next
      case True
      have "inj_on items_id (set tbl)" using d by (simp add: distinct_map)
      moreover have "tbl ! i \<in> set tbl" using i by simp
      moreover have "obj \<in> set tbl" "items_id obj = iid"
        using session_get_Some [OF found] by simp_all
      ultimately have "tbl ! i = obj" using True by (auto dest: inj_onD)
      with tbl' True setattrs_flush_frame [OF Some] show ?thesis by simp
    qed
  qed
qed

text \<open>
  Claim C5, as stated, fails. \<^verbatim>\<open>ItemUpdate\<close> accepts an explicit \<^verbatim>\<open>null\<close> for every field,
  and \<^verbatim>\<open>model_dump(exclude_unset=True)\<close> keeps it; the column \<^verbatim>\<open>in_stock\<close> is declared
  \<^verbatim>\<open>nullable=False\<close>. For the existing item 1 and the payload that sets only \<^verbatim>\<open>in_stock\<close>,
  to \<^verbatim>\<open>null\<close>, the flush is refused: the call raises and the field that is explicitly
  present in the payload is not overwritten.
\<close>

theorem update_explicit_null_refused:
  "session_get [mouse_row] 1 = Some mouse_row
   \<and> upd_in_stock (no_changes\<lparr>upd_in_stock := Assigned None\<rparr>) = Assigned None
   \<and> SQLItemRepo_update [mouse_row] 1 (no_changes\<lparr>upd_in_stock := Assigned None\<rparr>) =
       ([mouse_row], Inl IntegrityError)"
  by (simp add: session_get_def mouse_row_def no_changes_def SQLItemRepo_update_def
      setattrs_flush_def assigned_def)

text \<open>
  Claim C5, amended: on a table whose primary keys are distinct,
  \<^item> \<open>update\<close> with an id that no item has returns \<open>None\<close> without raising and leaves the
    table as it was;
  \<^item> for an existing item and a payload that sets none of the fields \<^verbatim>\<open>name\<close>, \<^verbatim>\<open>price\<close>,
    \<^verbatim>\<open>tags\<close>, \<^verbatim>\<open>in_stock\<close> (whose columns are not nullable) to an explicit \<^verbatim>\<open>null\<close>, the
    stored item afterwards has the payload's value in every field the payload sets
    and its former value in every field the payload leaves unset, with the same \<^verbatim>\<open>id\<close>
    and \<^verbatim>\<open>created_at\<close>;
  \<^item> for every payload, the table keeps its length, every item keeps its \<^verbatim>\<open>id\<close> and
    \<^verbatim>\<open>created_at\<close> and every field the payload leaves unset, and every item with another
    id is unchanged.
\<close>

theorem SQLItemRepo_update_partial:
  assumes "distinct (map items_id tbl)"
  shows "(session_get tbl iid = None \<longrightarrow> SQLItemRepo_update tbl iid changes = (tbl, Inr None))
   \<and> (\<forall>obj. session_get tbl iid = Some obj
          \<and> upd_name changes \<noteq> Assigned None \<and> upd_price changes \<noteq> Assigned None
          \<and> upd_tags changes \<noteq> Assigned None \<and> upd_in_stock changes \<noteq> Assigned None
        \<longrightarrow> (\<exists>obj'. session_get (fst (SQLItemRepo_update tbl iid changes)) iid = Some obj'
               \<and> items_name obj' =
                   (case upd_name changes of Assigned (Some v) \<Rightarrow> v | _ \<Rightarrow> items_name obj)
               \<and> items_description obj' =
                   (case upd_description changes of
                      Assigned v \<Rightarrow> v | Unset \<Rightarrow> items_description obj)
               \<and> items_price obj' =
                   (case upd_price changes of Assigned (Some v) \<Rightarrow> v | _ \<Rightarrow> items_price obj)
               \<and> items_tags obj' =
                   (case upd_tags changes of Assigned (Some v) \<Rightarrow> Some v | _ \<Rightarrow> items_tags obj)
               \<and> items_in_stock obj' =
                   (case upd_in_stock changes of
                      Assigned (Some v) \<Rightarrow> v | _ \<Rightarrow> items_in_stock obj)
               \<and> items_id obj' = items_id obj
               \<and> items_created_at obj' = items_created_at obj))
   \<and> length (fst (SQLItemRepo_update tbl iid changes)) = length tbl
   \<and> (\<forall>i < length tbl.
        items_id (fst (SQLItemRepo_update tbl iid changes) ! i) = items_id (tbl ! i)
        \<and> items_created_at (fst (SQLItemRepo_update tbl iid changes) ! i) =
            items_created_at (tbl ! i)
        \<and> (upd_name changes = Unset \<longrightarrow>
             items_name (fst (SQLItemRepo_update tbl iid changes) ! i) = items_name (tbl ! i))
        \<and> (upd_description changes = Unset \<longrightarrow>
             items_description (fst (SQLItemRepo_update tbl iid changes) ! i) =
               items_description (tbl ! i))
        \<and> (upd_price changes = Unset \<longrightarrow>
             items_price (fst (SQLItemRepo_update tbl iid changes) ! i) = items_price (tbl ! i))
        \<and> (upd_tags changes = Unset \<longrightarrow>
             items_tags (fst (SQLItemRepo_update tbl iid changes) ! i) = items_tags (tbl ! i))
        \<and> (upd_in_stock changes = Unset \<longrightarrow>
             items_in_stock (fst (SQLItemRepo_update tbl iid changes) ! i) =
               items_in_stock (tbl ! i))
        \<and> (items_id (tbl ! i) \<noteq> iid \<longrightarrow>
             fst (SQLItemRepo_update tbl iid changes) ! i = tbl ! i))"
  (is "?missing \<and> ?written \<and> ?len \<and> ?frame")
proof -
  have missing: ?missing
    by (simp add: SQLItemRepo_update_def)
  have written: ?written
  proof (intro allI impI)
    fix obj
    assume h: "session_get tbl iid = Some obj
          \<and> upd_name changes \<noteq> Assigned None \<and> upd_price changes \<noteq> Assigned None
          \<and> upd_tags changes \<noteq> Assigned None \<and> upd_in_stock changes \<noteq> Assigned None"
    let ?obj' = "obj\<lparr>items_name := (case upd_name changes of Assigned (Some v) \<Rightarrow> v | _ \<Rightarrow> items_name obj),
               items_description := assigned (upd_description changes) (items_description obj),
               items_price := (case upd_price changes of Assigned (Some v) \<Rightarrow> v | _ \<Rightarrow> items_price obj),
               items_tags := assigned (upd_tags changes) (items_tags obj),
               items_in_stock :=
                 (case upd_in_stock changes of Assigned (Some v) \<Rightarrow> v | _ \<Rightarrow> items_in_stock obj)\<rparr>"
    have fl: "setattrs_flush obj changes = Some ?obj'"
      using h by (intro setattrs_flush_Some) simp_all
    have id: "items_id ?obj' = iid" using session_get_Some(2) [of tbl iid obj] h by simp
    have got: "session_get (fst (SQLItemRepo_update tbl iid changes)) iid = Some ?obj'"
      using h fl session_get_replaced [of tbl iid obj ?obj', OF _ id]
      by (simp add: update_table)
    have tags: "assigned (upd_tags changes) (items_tags obj) =
        (case upd_tags changes of Assigned (Some v) \<Rightarrow> Some v | _ \<Rightarrow> items_tags obj)"
      using h by (auto simp: assigned_def split: field.splits option.splits)
    have descr: "assigned (upd_description changes) (items_description obj) =
        (case upd_description changes of Assigned v \<Rightarrow> v | Unset \<Rightarrow> items_description obj)"
      by (auto simp: assigned_def split: field.splits)
    show "\<exists>obj'. session_get (fst (SQLItemRepo_update tbl iid changes)) iid = Some obj'
               \<and> items_name obj' =
                   (case upd_name changes of Assigned (Some v) \<Rightarrow> v | _ \<Rightarrow> items_name obj)
               \<and> items_description obj' =
                   (case upd_description changes of
                      Assigned v \<Rightarrow> v | Unset \<Rightarrow> items_description obj)
               \<and> items_price obj' =
                   (case upd_price changes of Assigned (Some v) \<Rightarrow> v | _ \<Rightarrow> items_price obj)
               \<and> items_tags obj' =
                   (case upd_tags changes of Assigned (Some v) \<Rightarrow> Some v | _ \<Rightarrow> items_tags obj)
               \<and> items_in_stock obj' =
                   (case upd_in_stock changes of
                      Assigned (Some v) \<Rightarrow> v | _ \<Rightarrow> items_in_stock obj)
               \<and> items_id obj' = items_id obj
               \<and> items_created_at obj' = items_created_at obj"
      by (rule exI [of _ ?obj']) (simp add: got tags descr)
  qed
  have len: ?len
    by (simp add: update_table split: option.splits)
  have frame: ?frame
    using update_frame_row [OF assms] by blast
  show ?thesis
    by (intro conjI) (fact missing, fact written, fact len, fact frame)
qed

text \<open>
  Witness for C5: the update \<^verbatim>\<open>{"price": 10}\<close> of item 1 changes its price and nothing
  else; the same update of the missing item 2 returns \<open>None\<close> and changes nothing.
\<close>

theorem SQLItemRepo_update_partial_witness:
  "distinct (map items_id [mouse_row])
   \<and> session_get [mouse_row] 1 = Some mouse_row
   \<and> SQLItemRepo_update [mouse_row] 1 price_only =
       ([mouse_row\<lparr>items_price := 10\<rparr>], Inr (Some (mouse_read\<lparr>price := 10\<rparr>)))
   \<and> session_get [mouse_row] 2 = None
   \<and> SQLItemRepo_update [mouse_row] 2 price_only = ([mouse_row], Inr None)"
proof -
  have d: "distinct (map items_id [mouse_row])" by simp
  have one: "session_get [mouse_row] 1 = Some mouse_row"
    by (simp add: session_get_def mouse_row_def)
  have two: "session_get [mouse_row] 2 = None"
    by (simp add: session_get_def mouse_row_def)
  have upd: "SQLItemRepo_update [mouse_row] 1 price_only =
       ([mouse_row\<lparr>items_price := 10\<rparr>], Inr (Some (mouse_read\<lparr>price := 10\<rparr>)))"
    by (simp add: SQLItemRepo_update_def session_get_def setattrs_flush_def assigned_def
        price_only_def no_changes_def mouse_row_def mouse_read_def SQLItemRepo_to_read_def)
  show ?thesis
    using SQLItemRepo_update_partial [OF d, of 1 price_only]
      SQLItemRepo_update_partial [OF d, of 2 price_only] one two upd
    by simp
qed

section \<open>Properties of the cache\<close>

text \<open>The two routes that clear the cache do so whenever they return an item.\<close>

lemma create_item_clears_cache:
  assumes "snd (create_item now s p) = Inr item"
  shows "st_cache (fst (create_item now s p)) = []"
  using assms
  by (auto simp: create_item_def FastAPICache_clear_def split: prod.splits sum.splits)

lemma update_item_clears_cache:
  assumes "snd (update_item s iid changes) = Inr item"
  shows "st_cache (fst (update_item s iid changes)) = []"
  using assms
  by (auto simp: update_item_def FastAPICache_clear_def
      split: prod.splits sum.splits option.splits)

text \<open>The bulk route never changes the cache, whatever it creates.\<close>

lemma create_items_bulk_keeps_cache:
  "st_cache (fst (create_items_bulk now s payloads)) = st_cache s"
  by (simp add: create_items_bulk_def split: prod.splits)

lemma SQLItemRepo_create_mouse:
  "SQLItemRepo_create 1000 [] mouse = ([mouse_row], Inr mouse_read)"
  by (simp add: SQLItemRepo_create_def next_items_id_def mouse_def mouse_row_def
      mouse_read_def SQLItemRepo_to_read_def)

text \<open>
  Claim C7, the code at the failing input: whatever entries \<open>entries\<close> the cache holds,
  \<^verbatim>\<open>create_items_bulk\<close> returns with all of them still in it; on the empty store with the
  sample item as its only payload it completes, the item is stored, and every entry
  cached before the write is still there. The route \<^verbatim>\<open>create_item\<close>, given the same
  state and payload, leaves the cache empty.
\<close>

theorem bulk_create_keeps_cache_entries:
  "st_cache (fst (create_items_bulk now s payloads)) = st_cache s
   \<and> create_items_bulk 1000 \<lparr>st_items = [], st_cache = entries\<rparr> [mouse] =
       (\<lparr>st_items = [mouse_row], st_cache = entries\<rparr>, Inr [mouse_read])
   \<and> create_item 1000 \<lparr>st_items = [], st_cache = entries\<rparr> mouse =
       (\<lparr>st_items = [mouse_row], st_cache = []\<rparr>, Inr mouse_read)"
proof (intro conjI)
  show "st_cache (fst (create_items_bulk now s payloads)) = st_cache s"
    by (rule create_items_bulk_keeps_cache)
  show "create_items_bulk 1000 \<lparr>st_items = [], st_cache = entries\<rparr> [mouse] =
       (\<lparr>st_items = [mouse_row], st_cache = entries\<rparr>, Inr [mouse_read])"
    by (simp add: create_items_bulk_def SQLItemRepo_create_mouse)
  show "create_item 1000 \<lparr>st_items = [], st_cache = entries\<rparr> mouse =
       (\<lparr>st_items = [mouse_row], st_cache = []\<rparr>, Inr mouse_read)"
    by (simp add: create_item_def SQLItemRepo_create_mouse FastAPICache_clear_def)
qed

end
